theory Spec2Isabelle
  imports Main
begin

section \<open>The customer record service of crm\_api.py\<close>

text \<open>
  The program is one FastAPI application over one SQLModel table. Each route handler
  receives a database session and its validated parameters, runs one statement against
  the table, and either returns a value or raises. The embedding passes the table
  explicitly: a handler takes the table and its parameters and returns its response
  (an error or a value) together with the table as the request leaves it.
\<close>

subsection \<open>Data model (lines 20--34)\<close>

text \<open>
  \<^verbatim>\<open>class ClienteBase(SQLModel)\<close> declares four fields: \<open>nome\<close> and \<open>email\<close> are
  \<^verbatim>\<open>str\<close> without a default, hence required; \<open>telefone\<close> and \<open>empresa\<close> are
  \<^verbatim>\<open>Optional[str] = None\<close>. An instance built from a request also remembers which
  fields the request supplied (its \<^verbatim>\<open>model_fields_set\<close>); that is what
  \<^verbatim>\<open>model_dump(exclude_unset=True)\<close> reads in \<^verbatim>\<open>update_cliente\<close>.

  \<^verbatim>\<open>class Cliente(ClienteBase, table=True)\<close> adds the primary key. The attribute is
  declared \<^verbatim>\<open>Optional[int] = None\<close> because the object exists without a key between
  \<^verbatim>\<open>model_validate\<close> (line 111) and \<^verbatim>\<open>commit\<close> (line 115); a row of the table
  always has its key, so a row carries an \<open>int\<close>, which is also the shape of
  \<^verbatim>\<open>ClienteRead\<close>, the response model. Python's integers are unbounded and are
  kept as \<open>int\<close>; the storage engine holds signed 64-bit integers, and a Python integer
  outside that range cannot be bound to a statement. A JSON value of the wrong type and
  keys the class does not declare are outside the model: a body maps the four field names
  to strings or \<^verbatim>\<open>null\<close>.
\<close>

datatype field = Nome | Email | Telefone | Empresa

record ClienteBase_fields =
  nome :: string
  email :: string
  telefone :: "string option"
  empresa :: "string option"

record ClienteBase = ClienteBase_fields +
  model_fields_set :: "field set"

record Cliente = ClienteBase_fields +
  id_pk :: int

type_synonym table = "Cliente list"

subsection \<open>Errors\<close>

text \<open>
  The handlers raise \<^verbatim>\<open>HTTPException\<close> with status 400 (detail: e-mail already
  registered) and 404 (detail: customer not found). A request that does not satisfy the
  declared parameter types is answered with status 422 before the handler body runs. A
  statement that violates a constraint of the table makes \<^verbatim>\<open>commit\<close> raise, and a
  statement with an integer parameter outside the signed 64-bit range raises
  \<^verbatim>\<open>OverflowError\<close> when the parameter is bound; no handler catches either, the
  session is closed without a commit and the answer is status 500.
\<close>

datatype detail = Email_ja_cadastrado | Cliente_nao_encontrado

datatype error =
    HTTPException int detail
  | RequestValidationError
  | IntegrityError
  | OverflowError

fun status_code :: "error \<Rightarrow> int" where
  "status_code (HTTPException code d) = code"
| "status_code RequestValidationError = 422"
| "status_code IntegrityError = 500"
| "status_code OverflowError = 500"

abbreviation DuplicateEmail :: error where
  "DuplicateEmail \<equiv> HTTPException 400 Email_ja_cadastrado"

abbreviation NotFound :: error where
  "NotFound \<equiv> HTTPException 404 Cliente_nao_encontrado"

subsection \<open>The table and the statements the handlers issue\<close>

text \<open>
  The table is the list of its rows in the order a scan without \<^verbatim>\<open>ORDER BY\<close>
  yields them, which is the order of the primary key. The column \<open>email\<close> is declared
  \<^verbatim>\<open>unique=True\<close> (line 23) and \<open>id\<close> is the primary key (line 30); an insert
  without a key receives the largest key of the table plus one (one for the empty table)
  and therefore goes to the end of the scan order.
\<close>

definition select_where_email_first :: "table \<Rightarrow> string \<Rightarrow> Cliente option" where
  "select_where_email_first s e = find (\<lambda>r. email r = e) s"

definition int64 :: "int \<Rightarrow> bool" where
  "int64 n \<longleftrightarrow> - (2 ^ 63) \<le> n \<and> n < 2 ^ 63"

text \<open>
  \<^verbatim>\<open>session.get(Cliente, cliente_id)\<close> binds the key to a query. A key that a row of
  the table has was stored by the engine and is in its range, so the row is returned; for
  a key that no row has, the answer is \<^verbatim>\<open>None\<close> when the key is in the range and
  \<^verbatim>\<open>OverflowError\<close> when it is not.
\<close>

definition session_get :: "table \<Rightarrow> int \<Rightarrow> error + Cliente option" where
  "session_get s cliente_id =
     (case find (\<lambda>r. id_pk r = cliente_id) s of
        Some db_cliente \<Rightarrow> Inr (Some db_cliente)
      | None \<Rightarrow> if int64 cliente_id then Inr None else Inl OverflowError)"

definition next_rowid :: "table \<Rightarrow> int" where
  "next_rowid s = (if s = [] then 1 else Max (set (map id_pk s)) + 1)"

definition Cliente_model_validate :: "ClienteBase \<Rightarrow> ClienteBase_fields" where
  "Cliente_model_validate c =
     \<lparr>nome = nome c, email = email c, telefone = telefone c, empresa = empresa c\<rparr>"

definition with_id :: "ClienteBase_fields \<Rightarrow> int \<Rightarrow> Cliente" where
  "with_id c k =
     \<lparr>nome = nome c, email = email c, telefone = telefone c, empresa = empresa c,
      id_pk = k\<rparr>"

text \<open>\<^verbatim>\<open>session.add; session.commit; session.refresh\<close> on a new object.\<close>

definition insert_commit :: "table \<Rightarrow> ClienteBase_fields \<Rightarrow> error + (Cliente \<times> table)" where
  "insert_commit s c =
     (if list_ex (\<lambda>r. email r = email c) s then Inl IntegrityError
      else let row = with_id c (next_rowid s) in Inr (row, s @ [row]))"

text \<open>\<^verbatim>\<open>session.add; session.commit; session.refresh\<close> on an object loaded by key.\<close>

definition update_commit :: "table \<Rightarrow> int \<Rightarrow> Cliente \<Rightarrow> error + table" where
  "update_commit s cliente_id row =
     (if list_ex (\<lambda>r. id_pk r \<noteq> cliente_id \<and> email r = email row) s then Inl IntegrityError
      else Inr (map (\<lambda>r. if id_pk r = cliente_id then row else r) s))"

text \<open>\<^verbatim>\<open>session.delete; session.commit\<close>.\<close>

definition delete_commit :: "table \<Rightarrow> int \<Rightarrow> table" where
  "delete_commit s cliente_id = filter (\<lambda>r. id_pk r \<noteq> cliente_id) s"

text \<open>
  \<^verbatim>\<open>select(Cliente).offset(offset).limit(limit)\<close>: the storage engine reads a negative
  offset as zero and a negative limit as no limit.
\<close>

definition sql_offset :: "int \<Rightarrow> 'a list \<Rightarrow> 'a list" where
  "sql_offset n xs = drop (nat n) xs"

definition sql_limit :: "int \<Rightarrow> 'a list \<Rightarrow> 'a list" where
  "sql_limit n xs = (if n < 0 then xs else take (nat n) xs)"

text \<open>Both numbers are parameters of the statement and must be in the engine's range.\<close>

definition session_exec_offset_limit :: "table \<Rightarrow> int \<Rightarrow> int \<Rightarrow> error + Cliente list" where
  "session_exec_offset_limit s offset limit =
     (if int64 offset \<and> int64 limit then Inr (sql_limit limit (sql_offset offset s))
      else Inl OverflowError)"

subsection \<open>Request bodies\<close>

text \<open>
  A JSON body is a dictionary from field names to strings or \<^verbatim>\<open>null\<close>. Validation
  against \<^verbatim>\<open>ClienteBase\<close> demands the two required fields with a string value and lets
  the optional ones default to \<^verbatim>\<open>None\<close>; the fields set are the keys of the body.
\<close>

type_synonym body = "field \<rightharpoonup> string option"

definition ClienteBase_model_validate :: "body \<Rightarrow> error + ClienteBase" where
  "ClienteBase_model_validate b =
     (case (b Nome, b Email) of
        (Some (Some n), Some (Some e)) \<Rightarrow>
          Inr \<lparr>nome = n, email = e,
               telefone = (case b Telefone of None \<Rightarrow> None | Some v \<Rightarrow> v),
               empresa = (case b Empresa of None \<Rightarrow> None | Some v \<Rightarrow> v),
               model_fields_set = dom b\<rparr>
      | _ \<Rightarrow> Inl RequestValidationError)"

subsection \<open>Create (lines 93--118)\<close>

definition create_cliente :: "table \<Rightarrow> ClienteBase \<Rightarrow> (error + Cliente) \<times> table" where
  "create_cliente s cliente =
     (case select_where_email_first s (email cliente) of
        Some db_cliente_existente \<Rightarrow> (Inl (HTTPException 400 Email_ja_cadastrado), s)
      | None \<Rightarrow>
          (case insert_commit s (Cliente_model_validate cliente) of
             Inl e \<Rightarrow> (Inl e, s)
           | Inr (db_cliente, s') \<Rightarrow> (Inr db_cliente, s')))"

definition post_clientes :: "table \<Rightarrow> body \<Rightarrow> (error + Cliente) \<times> table" where
  "post_clientes s b =
     (case ClienteBase_model_validate b of
        Inl e \<Rightarrow> (Inl e, s)
      | Inr cliente \<Rightarrow> create_cliente s cliente)"

subsection \<open>List (lines 123--139)\<close>

text \<open>
  \<^verbatim>\<open>offset: int = 0\<close> carries no constraint; \<^verbatim>\<open>limit: int = Query(default=10, le=100)\<close>
  carries an upper bound only.
\<close>

definition read_clientes :: "table \<Rightarrow> int \<Rightarrow> int \<Rightarrow> (error + Cliente list) \<times> table" where
  "read_clientes s offset limit =
     (if limit > 100 then (Inl RequestValidationError, s)
      else (case session_exec_offset_limit s offset limit of
              Inl e \<Rightarrow> (Inl e, s)
            | Inr clientes \<Rightarrow> (Inr clientes, s)))"

definition get_clientes :: "table \<Rightarrow> int option \<Rightarrow> int option \<Rightarrow> (error + Cliente list) \<times> table" where
  "get_clientes s offset limit =
     read_clientes s (case offset of None \<Rightarrow> 0 | Some n \<Rightarrow> n)
                     (case limit of None \<Rightarrow> 10 | Some n \<Rightarrow> n)"

subsection \<open>Get (lines 144--159)\<close>

definition read_cliente :: "table \<Rightarrow> int \<Rightarrow> (error + Cliente) \<times> table" where
  "read_cliente s cliente_id =
     (case session_get s cliente_id of
        Inl e \<Rightarrow> (Inl e, s)
      | Inr None \<Rightarrow> (Inl (HTTPException 404 Cliente_nao_encontrado), s)
      | Inr (Some db_cliente) \<Rightarrow> (Inr db_cliente, s))"

subsection \<open>Update (lines 164--191)\<close>

text \<open>
  \<^verbatim>\<open>model_dump(exclude_unset=True)\<close> is the dictionary of the fields in
  \<^verbatim>\<open>model_fields_set\<close>; \<^verbatim>\<open>sqlmodel_update\<close> assigns every key of that dictionary to
  the loaded object.
\<close>

record update_data =
  d_nome :: "string option"
  d_email :: "string option"
  d_telefone :: "string option option"
  d_empresa :: "string option option"

definition model_dump_exclude_unset :: "ClienteBase \<Rightarrow> update_data" where
  "model_dump_exclude_unset c =
     \<lparr>d_nome = (if Nome \<in> model_fields_set c then Some (nome c) else None),
      d_email = (if Email \<in> model_fields_set c then Some (email c) else None),
      d_telefone = (if Telefone \<in> model_fields_set c then Some (telefone c) else None),
      d_empresa = (if Empresa \<in> model_fields_set c then Some (empresa c) else None)\<rparr>"

definition sqlmodel_update :: "Cliente \<Rightarrow> update_data \<Rightarrow> Cliente" where
  "sqlmodel_update db_cliente d =
     db_cliente
       \<lparr>nome := (case d_nome d of None \<Rightarrow> nome db_cliente | Some v \<Rightarrow> v),
        email := (case d_email d of None \<Rightarrow> email db_cliente | Some v \<Rightarrow> v),
        telefone := (case d_telefone d of None \<Rightarrow> telefone db_cliente | Some v \<Rightarrow> v),
        empresa := (case d_empresa d of None \<Rightarrow> empresa db_cliente | Some v \<Rightarrow> v)\<rparr>"

definition update_cliente :: "table \<Rightarrow> int \<Rightarrow> ClienteBase \<Rightarrow> (error + Cliente) \<times> table" where
  "update_cliente s cliente_id cliente_update =
     (case session_get s cliente_id of
        Inl e \<Rightarrow> (Inl e, s)
      | Inr None \<Rightarrow> (Inl (HTTPException 404 Cliente_nao_encontrado), s)
      | Inr (Some db_cliente) \<Rightarrow>
          (let update_data = model_dump_exclude_unset cliente_update;
               db_cliente' = sqlmodel_update db_cliente update_data
           in case update_commit s cliente_id db_cliente' of
                Inl e \<Rightarrow> (Inl e, s)
              | Inr s' \<Rightarrow> (Inr db_cliente', s')))"

definition patch_clientes :: "table \<Rightarrow> int \<Rightarrow> body \<Rightarrow> (error + Cliente) \<times> table" where
  "patch_clientes s cliente_id b =
     (case ClienteBase_model_validate b of
        Inl e \<Rightarrow> (Inl e, s)
      | Inr cliente_update \<Rightarrow> update_cliente s cliente_id cliente_update)"

subsection \<open>Delete (lines 196--213)\<close>

definition delete_cliente :: "table \<Rightarrow> int \<Rightarrow> (error + (string \<times> string) list) \<times> table" where
  "delete_cliente s cliente_id =
     (case session_get s cliente_id of
        Inl e \<Rightarrow> (Inl e, s)
      | Inr None \<Rightarrow> (Inl (HTTPException 404 Cliente_nao_encontrado), s)
      | Inr (Some db_cliente) \<Rightarrow>
          (Inr [(''message'', ''Cliente deletado com sucesso'')],
           delete_commit s cliente_id))"

subsection \<open>Sequences of requests\<close>

datatype request =
    Create ClienteBase
  | List int int
  | Get int
  | Update int ClienteBase
  | Delete int

fun step :: "table \<Rightarrow> request \<Rightarrow> table" where
  "step s (Create c) = snd (create_cliente s c)"
| "step s (List offset limit) = snd (read_clientes s offset limit)"
| "step s (Get k) = snd (read_cliente s k)"
| "step s (Update k c) = snd (update_cliente s k c)"
| "step s (Delete k) = snd (delete_cliente s k)"

definition run :: "table \<Rightarrow> request list \<Rightarrow> table" where
  "run s rs = foldl step s rs"

text \<open>The customers inserted one after the other, and the rows they become.\<close>

fun create_all :: "table \<Rightarrow> ClienteBase list \<Rightarrow> table" where
  "create_all s [] = s"
| "create_all s (c # cs) = create_all (snd (create_cliente s c)) cs"

fun rows_from :: "int \<Rightarrow> ClienteBase list \<Rightarrow> Cliente list" where
  "rows_from k [] = []"
| "rows_from k (c # cs) = with_id (Cliente_model_validate c) k # rows_from (k + 1) cs"

subsection \<open>Invariant of the table and sample data\<close>

text \<open>
  The two constraints the table declares: the primary key and the unique e-mail.
\<close>

definition table_inv :: "table \<Rightarrow> bool" where
  "table_inv s \<longleftrightarrow> distinct (map id_pk s) \<and> distinct (map email s)"

text \<open>Two customers as requests carry them, and the rows they become.\<close>

definition ana :: ClienteBase where
  "ana = \<lparr>nome = ''Ana'', email = ''ana@crm.br'', telefone = None, empresa = None,
          model_fields_set = {Nome, Email}\<rparr>"

definition bia :: ClienteBase where
  "bia = \<lparr>nome = ''Bia'', email = ''bia@crm.br'', telefone = Some ''5511'', empresa = None,
          model_fields_set = {Nome, Email, Telefone}\<rparr>"

definition row_ana :: Cliente where
  "row_ana = \<lparr>nome = ''Ana'', email = ''ana@crm.br'', telefone = None, empresa = None,
              id_pk = 1\<rparr>"

definition row_bia :: Cliente where
  "row_bia = \<lparr>nome = ''Bia'', email = ''bia@crm.br'', telefone = Some ''5511'', empresa = None,
              id_pk = 2\<rparr>"

text \<open>
  A request that gives the second customer the e-mail of the first, and fifteen
  customers with fifteen different e-mails.
\<close>

definition ana_email_for_bia :: ClienteBase where
  "ana_email_for_bia = \<lparr>nome = ''Bia'', email = ''ana@crm.br'', telefone = None, empresa = None,
          model_fields_set = {Nome, Email}\<rparr>"

definition novo :: "string \<Rightarrow> ClienteBase" where
  "novo e = \<lparr>nome = e, email = e, telefone = None, empresa = None,
             model_fields_set = {Nome, Email}\<rparr>"

definition quinze :: "ClienteBase list" where
  "quinze = map novo [''a'', ''b'', ''c'', ''d'', ''e'', ''f'', ''g'', ''h'', ''i'', ''j'',
                      ''k'', ''l'', ''m'', ''n'', ''o'']"

section \<open>Properties\<close>

subsection \<open>Reading does not write\<close>

text \<open>
  C10. Get and List are read-only: whatever the table and the parameters, and whether
  the call answers with a value or with an error, the table after the call is the table
  before it.
\<close>

theorem C10_reads_leave_table_unchanged:
  "snd (read_cliente s cliente_id) = s \<and> snd (read_clientes s offset limit) = s"
  by (simp add: read_cliente_def read_clientes_def split: option.split sum.split)

subsection \<open>Facts about the statements\<close>

lemma id_lt_next_rowid: "r \<in> set s \<Longrightarrow> id_pk r < next_rowid s"
proof -
  assume r: "r \<in> set s"
  then have ne: "s \<noteq> []" by auto
  have "id_pk r \<in> set (map id_pk s)" using r by simp
  then have "id_pk r \<le> Max (set (map id_pk s))" by (intro Max_ge) auto
  then show ?thesis using ne by (simp add: next_rowid_def)
qed

lemma next_rowid_fresh: "next_rowid s \<notin> id_pk ` set s"
  using id_lt_next_rowid by fastforce

lemma select_where_email_first_None:
  "select_where_email_first s e = None \<longleftrightarrow> e \<notin> email ` set s"
  by (auto simp: select_where_email_first_def find_None_iff)

lemma session_get_Some: "session_get s k = Inr (Some r) \<Longrightarrow> r \<in> set s \<and> id_pk r = k"
  by (auto simp: session_get_def find_Some_iff split: option.splits if_splits)

lemma session_get_present: "k \<in> id_pk ` set s \<Longrightarrow> \<exists>r. session_get s k = Inr (Some r)"
  by (cases "find (\<lambda>r. id_pk r = k) s") (auto simp: session_get_def find_None_iff)

lemma session_get_None: "k \<notin> id_pk ` set s \<Longrightarrow> int64 k \<Longrightarrow> session_get s k = Inr None"
  by (cases "find (\<lambda>r. id_pk r = k) s") (auto simp: session_get_def find_Some_iff)

lemma session_get_overflow:
  "k \<notin> id_pk ` set s \<Longrightarrow> \<not> int64 k \<Longrightarrow> session_get s k = Inl OverflowError"
  by (cases "find (\<lambda>r. id_pk r = k) s") (auto simp: session_get_def find_Some_iff)

lemma session_get_not_found:
  "session_get s k = Inl e \<or> session_get s k = Inr None \<Longrightarrow> k \<notin> id_pk ` set s"
  using session_get_present[of k s] by auto

lemma list_ex_email: "list_ex (\<lambda>r. email r = e) s \<longleftrightarrow> e \<in> email ` set s"
  by (auto simp: list_ex_iff)

lemma create_cliente_fresh:
  "email c \<notin> email ` set s \<Longrightarrow>
   create_cliente s c =
     (Inr (with_id (Cliente_model_validate c) (next_rowid s)),
      s @ [with_id (Cliente_model_validate c) (next_rowid s)])"
  by (simp add: create_cliente_def select_where_email_first_None[THEN iffD2] insert_commit_def
      list_ex_email Cliente_model_validate_def Let_def)

lemma create_cliente_dup:
  "email c \<in> email ` set s \<Longrightarrow> create_cliente s c = (Inl DuplicateEmail, s)"
  using select_where_email_first_None[of s "email c"]
  by (auto simp: create_cliente_def split: option.splits)

lemma with_id_simps [simp]:
  "nome (with_id f k) = nome f" "email (with_id f k) = email f"
  "telefone (with_id f k) = telefone f" "empresa (with_id f k) = empresa f"
  "id_pk (with_id f k) = k"
  by (simp_all add: with_id_def)

lemma Cliente_model_validate_simps [simp]:
  "nome (Cliente_model_validate c) = nome c" "email (Cliente_model_validate c) = email c"
  "telefone (Cliente_model_validate c) = telefone c" "empresa (Cliente_model_validate c) = empresa c"
  by (simp_all add: Cliente_model_validate_def)

subsection \<open>Create\<close>

text \<open>
  C4. Create fails with DuplicateEmail (status 400) exactly when a row with the requested
  e-mail is in the table, and then the table is unchanged; otherwise it appends exactly
  one row, gives it a key no other row has, and returns that row: the four fields of the
  request together with the key.
\<close>

theorem C4_create_duplicate_iff:
  "(fst (create_cliente s c) = Inl DuplicateEmail \<longleftrightarrow> email c \<in> email ` set s) \<and>
   (email c \<in> email ` set s \<longrightarrow> snd (create_cliente s c) = s) \<and>
   (email c \<notin> email ` set s \<longrightarrow>
      (\<exists>r. create_cliente s c = (Inr r, s @ [r]) \<and>
           id_pk r \<notin> id_pk ` set s \<and> id_pk r = next_rowid s \<and>
           nome r = nome c \<and> email r = email c \<and>
           telefone r = telefone c \<and> empresa r = empresa c))"
proof (cases "email c \<in> email ` set s")
  case True
  then show ?thesis by (simp add: create_cliente_dup)
next
  case False
  then show ?thesis using next_rowid_fresh[of s] by (simp add: create_cliente_fresh)
qed

theorem C4_witness:
  "email ana \<in> email ` set [row_ana] \<and>
   fst (create_cliente [row_ana] ana) = Inl DuplicateEmail \<and>
   snd (create_cliente [row_ana] ana) = [row_ana] \<and>
   email bia \<notin> email ` set [row_ana] \<and>
   (\<exists>r. create_cliente [row_ana] bia = (Inr r, [row_ana, r]) \<and> id_pk r = 2 \<and>
        nome r = ''Bia'' \<and> email r = ''bia@crm.br'')"
  using C4_create_duplicate_iff [of "[row_ana]" ana] C4_create_duplicate_iff [of "[row_ana]" bia]
  by (auto simp: ana_def bia_def row_ana_def next_rowid_def)

lemma session_get_append_new:
  "id_pk r \<notin> id_pk ` set s \<Longrightarrow> session_get (s @ [r]) (id_pk r) = Inr (Some r)"
proof -
  assume "id_pk r \<notin> id_pk ` set s"
  then have "find (\<lambda>x. id_pk x = id_pk r) (s @ [r]) = Some r"
    by (induction s) auto
  then show ?thesis by (simp add: session_get_def)
qed

text \<open>
  C5. Round trip: when the e-mail of the request is not in the table, Create succeeds,
  and Get with the key of the returned record, on the table Create leaves, returns the
  very same record.
\<close>

theorem C5_create_then_get:
  "email c \<notin> email ` set s \<Longrightarrow>
   \<exists>r s'. create_cliente s c = (Inr r, s') \<and> read_cliente s' (id_pk r) = (Inr r, s')"
proof -
  assume fresh: "email c \<notin> email ` set s"
  define r where "r = with_id (Cliente_model_validate c) (next_rowid s)"
  have "id_pk r \<notin> id_pk ` set s"
    using next_rowid_fresh[of s] by (simp add: r_def)
  then have "session_get (s @ [r]) (id_pk r) = Inr (Some r)"
    by (rule session_get_append_new)
  then have "read_cliente (s @ [r]) (id_pk r) = (Inr r, s @ [r])"
    by (simp add: read_cliente_def)
  moreover have "create_cliente s c = (Inr r, s @ [r])"
    using fresh by (simp add: create_cliente_fresh r_def)
  ultimately show ?thesis by blast
qed

theorem C5_witness:
  "email bia \<notin> email ` set [row_ana] \<and>
   (\<exists>r s'. create_cliente [row_ana] bia = (Inr r, s') \<and> read_cliente s' (id_pk r) = (Inr r, s'))"
  using C5_create_then_get [of bia "[row_ana]"]
  by (simp add: bia_def row_ana_def)

lemma count_email_distinct:
  "distinct (map email s) \<Longrightarrow> e \<in> email ` set s \<Longrightarrow>
   length (filter (\<lambda>r. email r = e) s) = 1"
  by (induction s) (auto simp: filter_empty_conv image_iff)

lemma count_email_absent:
  "e \<notin> email ` set s \<Longrightarrow> filter (\<lambda>r. email r = e) s = []"
  by (auto simp: filter_empty_conv)

text \<open>
  C6. Two creates with the same e-mail: the second call fails with DuplicateEmail and
  leaves the table as the first call left it; when the first call succeeded (and also
  whenever the table it started from had no repeated e-mail) that table holds exactly
  one row with the e-mail.
\<close>

theorem C6_second_create_rejected:
  assumes same: "email c2 = email c1"
  shows "create_cliente (snd (create_cliente s c1)) c2 =
           (Inl DuplicateEmail, snd (create_cliente s c1)) \<and>
         ((\<exists>r. fst (create_cliente s c1) = Inr r) \<longrightarrow>
            length (filter (\<lambda>r. email r = email c1) (snd (create_cliente s c1))) = 1) \<and>
         (distinct (map email s) \<longrightarrow>
            length (filter (\<lambda>r. email r = email c1) (snd (create_cliente s c1))) = 1)"
proof (cases "email c1 \<in> email ` set s")
  case True
  then have first: "create_cliente s c1 = (Inl DuplicateEmail, s)"
    by (rule create_cliente_dup)
  have "create_cliente s c2 = (Inl DuplicateEmail, s)"
    using True same by (simp add: create_cliente_dup)
  then show ?thesis
    using first True by (simp add: count_email_distinct)
next
  case False
  define r where "r = with_id (Cliente_model_validate c1) (next_rowid s)"
  have first: "create_cliente s c1 = (Inr r, s @ [r])"
    using False by (simp add: create_cliente_fresh r_def)
  have er: "email r = email c1" by (simp add: r_def)
  then have "email c2 \<in> email ` set (s @ [r])" using same by simp
  then have second: "create_cliente (s @ [r]) c2 = (Inl DuplicateEmail, s @ [r])"
    by (rule create_cliente_dup)
  have "length (filter (\<lambda>r. email r = email c1) (s @ [r])) = 1"
    using False er by (simp add: count_email_absent)
  then show ?thesis using first second by simp
qed

theorem C6_witness:
  "email ana = email ana \<and>
   fst (create_cliente [] ana) = Inr row_ana \<and>
   create_cliente (snd (create_cliente [] ana)) ana = (Inl DuplicateEmail, [row_ana]) \<and>
   length (filter (\<lambda>r. email r = email ana) [row_ana]) = 1"
  using C6_second_create_rejected [of ana ana "[]"] create_cliente_fresh [of ana "[]"]
  by (simp add: ana_def row_ana_def next_rowid_def with_id_def Cliente_model_validate_def)

subsection \<open>Missing keys\<close>

text \<open>
  The claim that every key no row has is answered NotFound fails outside the range of the
  storage engine: the key $2^{63}$ cannot be bound to the query, and Get, Update and
  Delete answer status 500. On the route, an update whose body lacks a required field is
  answered 422 before the key is looked up.
\<close>

theorem C7_counterexample:
  "9223372036854775808 \<notin> id_pk ` set [row_ana, row_bia] \<and>
   read_cliente [row_ana, row_bia] 9223372036854775808 =
     (Inl OverflowError, [row_ana, row_bia]) \<and>
   update_cliente [row_ana, row_bia] 9223372036854775808 bia =
     (Inl OverflowError, [row_ana, row_bia]) \<and>
   delete_cliente [row_ana, row_bia] 9223372036854775808 =
     (Inl OverflowError, [row_ana, row_bia]) \<and>
   status_code OverflowError = 500 \<and>
   999999 \<notin> id_pk ` set [row_ana, row_bia] \<and>
   patch_clientes [row_ana, row_bia] 999999 [Telefone \<mapsto> Some ''5599''] =
     (Inl RequestValidationError, [row_ana, row_bia])"
  by (simp add: read_cliente_def update_cliente_def delete_cliente_def session_get_def
      int64_def patch_clientes_def ClienteBase_model_validate_def row_ana_def row_bia_def)

text \<open>
  C7, as the code has it. For a key that no row of the table has and that lies in the
  signed 64-bit range of the storage engine, Get and Delete fail with NotFound (status
  404), and so does Update, both on every validated \<^verbatim>\<open>ClienteBase\<close> and on the route
  for every body that carries the required fields \<open>nome\<close> and \<open>email\<close>; the table
  is unchanged by the failed call, whatever other rows it holds. For a key outside
  that range the three handlers fail with \<^verbatim>\<open>OverflowError\<close> (status 500) and the table
  is unchanged as well.
\<close>

theorem C7_missing_id_in_range_not_found:
  "cliente_id \<notin> id_pk ` set s \<Longrightarrow>
   (- (2 ^ 63) \<le> cliente_id \<and> cliente_id < 2 ^ 63 \<longrightarrow>
      read_cliente s cliente_id = (Inl NotFound, s) \<and>
      update_cliente s cliente_id cliente_update = (Inl NotFound, s) \<and>
      (b Nome = Some (Some n) \<and> b Email = Some (Some e) \<longrightarrow>
         patch_clientes s cliente_id b = (Inl NotFound, s)) \<and>
      delete_cliente s cliente_id = (Inl NotFound, s)) \<and>
   (cliente_id < - (2 ^ 63) \<or> 2 ^ 63 \<le> cliente_id \<longrightarrow>
      read_cliente s cliente_id = (Inl OverflowError, s) \<and>
      update_cliente s cliente_id cliente_update = (Inl OverflowError, s) \<and>
      delete_cliente s cliente_id = (Inl OverflowError, s))"
proof -
  assume absent: "cliente_id \<notin> id_pk ` set s"
  have inside: "session_get s cliente_id = Inr None" if "int64 cliente_id"
    using absent that by (rule session_get_None)
  have outside: "session_get s cliente_id = Inl OverflowError" if "\<not> int64 cliente_id"
    using absent that by (rule session_get_overflow)
  have route: "patch_clientes s cliente_id b = update_cliente s cliente_id
      \<lparr>nome = n, email = e,
       telefone = (case b Telefone of None \<Rightarrow> None | Some v \<Rightarrow> v),
       empresa = (case b Empresa of None \<Rightarrow> None | Some v \<Rightarrow> v),
       model_fields_set = dom b\<rparr>"
    if "b Nome = Some (Some n)" "b Email = Some (Some e)"
    using that by (simp add: patch_clientes_def ClienteBase_model_validate_def)
  have a: "read_cliente s cliente_id = (Inl NotFound, s) \<and>
      update_cliente s cliente_id cliente_update = (Inl NotFound, s) \<and>
      (b Nome = Some (Some n) \<and> b Email = Some (Some e) \<longrightarrow>
         patch_clientes s cliente_id b = (Inl NotFound, s)) \<and>
      delete_cliente s cliente_id = (Inl NotFound, s)" if "int64 cliente_id"
    using inside[OF that] route
    by (simp add: read_cliente_def update_cliente_def delete_cliente_def)
  have b: "read_cliente s cliente_id = (Inl OverflowError, s) \<and>
      update_cliente s cliente_id cliente_update = (Inl OverflowError, s) \<and>
      delete_cliente s cliente_id = (Inl OverflowError, s)" if "\<not> int64 cliente_id"
    using outside[OF that]
    by (simp add: read_cliente_def update_cliente_def delete_cliente_def)
  show ?thesis
    using a b by (auto simp: int64_def)
qed

theorem C7_witness:
  "999999 \<notin> id_pk ` set [row_ana, row_bia] \<and>
   - (2 ^ 63) \<le> (999999::int) \<and> (999999::int) < 2 ^ 63 \<and>
   read_cliente [row_ana, row_bia] 999999 = (Inl NotFound, [row_ana, row_bia]) \<and>
   update_cliente [row_ana, row_bia] 999999 bia = (Inl NotFound, [row_ana, row_bia]) \<and>
   patch_clientes [row_ana, row_bia] 999999
     [Nome \<mapsto> Some ''Bia'', Email \<mapsto> Some ''bia@crm.br'', Telefone \<mapsto> Some ''5599''] =
     (Inl NotFound, [row_ana, row_bia]) \<and>
   delete_cliente [row_ana, row_bia] 999999 = (Inl NotFound, [row_ana, row_bia]) \<and>
   (2::int) ^ 63 \<notin> id_pk ` set [row_ana, row_bia] \<and>
   read_cliente [row_ana, row_bia] (2 ^ 63) = (Inl OverflowError, [row_ana, row_bia]) \<and>
   delete_cliente [row_ana, row_bia] (2 ^ 63) = (Inl OverflowError, [row_ana, row_bia])"
  using C7_missing_id_in_range_not_found [of 999999 "[row_ana, row_bia]" bia
      "[Nome \<mapsto> Some ''Bia'', Email \<mapsto> Some ''bia@crm.br'', Telefone \<mapsto> Some ''5599'']"
      "''Bia''" "''bia@crm.br''"]
    C7_missing_id_in_range_not_found [of "2 ^ 63" "[row_ana, row_bia]" bia]
  by (simp add: row_ana_def row_bia_def)

subsection \<open>Delete\<close>

lemma length_filter_distinct_key:
  "distinct (map f s) \<Longrightarrow> k \<in> f ` set s \<Longrightarrow>
   Suc (length (filter (\<lambda>r. f r \<noteq> k) s)) = length s"
proof (induction s)
  case Nil
  then show ?case by simp
next
  case (Cons x xs)
  show ?case
  proof (cases "f x = k")
    case True
    then have "k \<notin> f ` set xs" using Cons.prems(1) by auto
    then have "filter (\<lambda>r. f r \<noteq> k) xs = xs" by (auto simp: filter_id_conv)
    then show ?thesis using True by simp
  next
    case False
    then show ?thesis using Cons by auto
  qed
qed

text \<open>
  C8. Delete with the key of an existing row answers with a body that is only the
  message, leaves the table without any row of that key (the other rows stay, in their
  order; with keys distinct the table is one row shorter), and a Get with the same key on
  the table Delete leaves fails with NotFound; the key of an existing row is a key the
  storage engine holds, that is, one in its signed 64-bit range.
\<close>

theorem C8_delete_existing:
  "cliente_id \<in> id_pk ` set s \<Longrightarrow>
   delete_cliente s cliente_id =
     (Inr [(''message'', ''Cliente deletado com sucesso'')],
      filter (\<lambda>r. id_pk r \<noteq> cliente_id) s) \<and>
   cliente_id \<notin> id_pk ` set (snd (delete_cliente s cliente_id)) \<and>
   (- (2 ^ 63) \<le> cliente_id \<and> cliente_id < 2 ^ 63 \<longrightarrow>
      read_cliente (snd (delete_cliente s cliente_id)) cliente_id =
        (Inl NotFound, snd (delete_cliente s cliente_id))) \<and>
   (distinct (map id_pk s) \<longrightarrow>
      Suc (length (snd (delete_cliente s cliente_id))) = length s)"
proof -
  assume ex: "cliente_id \<in> id_pk ` set s"
  then obtain r where "session_get s cliente_id = Inr (Some r)"
    using session_get_present by blast
  then have del: "delete_cliente s cliente_id =
     (Inr [(''message'', ''Cliente deletado com sucesso'')],
      filter (\<lambda>r. id_pk r \<noteq> cliente_id) s)"
    by (simp add: delete_cliente_def delete_commit_def)
  have gone: "cliente_id \<notin> id_pk ` set (filter (\<lambda>r. id_pk r \<noteq> cliente_id) s)"
    by auto
  have "read_cliente (filter (\<lambda>r. id_pk r \<noteq> cliente_id) s) cliente_id =
     (Inl NotFound, filter (\<lambda>r. id_pk r \<noteq> cliente_id) s)" if "int64 cliente_id"
    using session_get_None[OF gone that] by (simp add: read_cliente_def)
  then show ?thesis
    using del gone ex by (simp add: length_filter_distinct_key int64_def)
qed

theorem C8_witness:
  "2 \<in> id_pk ` set [row_ana, row_bia] \<and>
   - (2 ^ 63) \<le> (2::int) \<and> (2::int) < 2 ^ 63 \<and>
   delete_cliente [row_ana, row_bia] 2 =
     (Inr [(''message'', ''Cliente deletado com sucesso'')], [row_ana]) \<and>
   read_cliente [row_ana] 2 = (Inl NotFound, [row_ana])"
  using C8_delete_existing [of 2 "[row_ana, row_bia]"]
  by (simp add: row_ana_def row_bia_def read_cliente_def session_get_def int64_def)

subsection \<open>The unique e-mail in every reachable table\<close>

lemma id_pk_sqlmodel_update [simp]: "id_pk (sqlmodel_update r d) = id_pk r"
  by (simp add: sqlmodel_update_def)

lemma update_rows_ids:
  "id_pk row = k \<Longrightarrow> map (\<lambda>r. id_pk (if id_pk r = k then row else r)) s = map id_pk s"
  by (induction s) auto

lemma update_rows_emails:
  "distinct (map id_pk s) \<Longrightarrow> distinct (map email s) \<Longrightarrow>
   \<not> list_ex (\<lambda>r. id_pk r \<noteq> k \<and> email r = email row) s \<Longrightarrow>
   distinct (map (\<lambda>r. email (if id_pk r = k then row else r)) s)"
proof (induction s)
  case Nil
  then show ?case by simp
next
  case (Cons x xs)
  have others: "\<And>r. r \<in> set xs \<Longrightarrow> id_pk r \<noteq> k \<Longrightarrow> email r \<noteq> email row"
    using Cons.prems(3) by (auto simp: list_ex_iff)
  have IH: "distinct (map (\<lambda>r. email (if id_pk r = k then row else r)) xs)"
    using Cons by (auto simp: list_ex_iff)
  show ?case
  proof (cases "id_pk x = k")
    case True
    then have nok: "\<And>r. r \<in> set xs \<Longrightarrow> id_pk r \<noteq> k"
      using Cons.prems(1) by (force simp: image_iff)
    then have same: "map (\<lambda>r. email (if id_pk r = k then row else r)) xs = map email xs"
      by (intro map_cong) auto
    have "email row \<notin> email ` set xs" using nok others by force
    then show ?thesis using True same Cons.prems(2) by (simp del: map_eq_conv)
  next
    case False
    then have ne: "email x \<noteq> email row" using Cons.prems(3) by (auto simp: list_ex_iff)
    have old: "email x \<notin> email ` set xs" using Cons.prems(2) by auto
    have "email x \<noteq> email (if id_pk r = k then row else r)" if "r \<in> set xs" for r
      using that ne old by (cases "id_pk r = k") auto
    then have "email x \<notin> (\<lambda>r. email (if id_pk r = k then row else r)) ` set xs"
      by blast
    then show ?thesis using False IH by simp
  qed
qed

lemma table_inv_create: "table_inv s \<Longrightarrow> table_inv (snd (create_cliente s c))"
proof (cases "email c \<in> email ` set s")
  case True
  assume "table_inv s"
  then show ?thesis using True by (simp add: create_cliente_dup)
next
  case False
  assume "table_inv s"
  then show ?thesis
    using False next_rowid_fresh[of s] by (simp add: create_cliente_fresh table_inv_def)
qed

lemma update_cliente_not_loaded:
  "\<nexists>r. session_get s k = Inr (Some r) \<Longrightarrow> snd (update_cliente s k c) = s"
  by (cases "session_get s k") (auto simp: update_cliente_def split: option.splits)

lemma table_inv_update: "table_inv s \<Longrightarrow> table_inv (snd (update_cliente s k c))"
proof (cases "\<exists>r. session_get s k = Inr (Some r)")
  case False
  assume "table_inv s"
  then show ?thesis using False by (simp add: update_cliente_not_loaded)
next
  case True
  then obtain r where Some: "session_get s k = Inr (Some r)" ..
  assume inv: "table_inv s"
  have k: "id_pk r = k" using Some by (simp add: session_get_Some)
  define row where "row = sqlmodel_update r (model_dump_exclude_unset c)"
  have rk: "id_pk row = k" using k by (simp add: row_def)
  show ?thesis
  proof (cases "list_ex (\<lambda>x. id_pk x \<noteq> k \<and> email x = email row) s")
    case True
    then show ?thesis
      using inv Some by (simp add: update_cliente_def update_commit_def Let_def row_def)
  next
    case False
    then have "snd (update_cliente s k c) = map (\<lambda>x. if id_pk x = k then row else x) s"
      using Some by (simp add: update_cliente_def update_commit_def Let_def row_def)
    moreover have "distinct (map (\<lambda>x. id_pk (if id_pk x = k then row else x)) s)"
      using inv update_rows_ids[OF rk, of s] by (simp add: table_inv_def del: map_eq_conv)
    moreover have "distinct (map (\<lambda>x. email (if id_pk x = k then row else x)) s)"
      using inv False update_rows_emails[of s k row] by (simp add: table_inv_def)
    ultimately show ?thesis by (simp add: table_inv_def o_def)
  qed
qed

lemma table_inv_delete: "table_inv s \<Longrightarrow> table_inv (snd (delete_cliente s k))"
  by (auto simp: delete_cliente_def delete_commit_def table_inv_def distinct_map_filter
      split: option.split sum.split)

lemma table_inv_step: "table_inv s \<Longrightarrow> table_inv (step s r)"
  by (cases r)
    (simp_all add: table_inv_create table_inv_update table_inv_delete
      read_cliente_def read_clientes_def split: option.split sum.split)

lemma table_inv_run: "table_inv s \<Longrightarrow> table_inv (run s rs)"
  unfolding run_def by (induction rs arbitrary: s) (simp_all add: table_inv_step)

text \<open>
  C2. E-mail uniqueness is an invariant: in the table reached from the empty table by
  any sequence of Create, List, Get, Update and Delete requests, no two rows have the
  same e-mail. Create checks the e-mail itself; Update does not, and an update that would
  repeat an e-mail is refused by the unique constraint of the column when it is
  committed.
\<close>

theorem C2_email_unique_in_reachable_states:
  "distinct (map email (run [] rs))"
proof -
  have "table_inv []" by (simp add: table_inv_def)
  then have "table_inv (run [] rs)" by (rule table_inv_run)
  then show ?thesis by (simp add: table_inv_def)
qed

text \<open>
  A run in which the update is refused: the second customer asks for the e-mail of the
  first, the commit raises, and the table stays as it was.
\<close>

theorem C2_witness:
  "update_cliente [row_ana, row_bia] 2 ana_email_for_bia = (Inl IntegrityError, [row_ana, row_bia]) \<and>
   run [] [Create ana, Create bia, Update 2 ana_email_for_bia, Get 1, List 0 10] = [row_ana, row_bia] \<and>
   distinct (map email (run [] [Create ana, Create bia, Update 2 ana_email_for_bia, Get 1, List 0 10]))"
  using C2_email_unique_in_reachable_states [of "[Create ana, Create bia, Update 2 ana_email_for_bia, Get 1, List 0 10]"]
  by (simp add: run_def create_cliente_def select_where_email_first_def insert_commit_def
      Cliente_model_validate_def with_id_def next_rowid_def ana_def bia_def row_ana_def row_bia_def
      ana_email_for_bia_def update_cliente_def session_get_def update_commit_def Let_def
      sqlmodel_update_def model_dump_exclude_unset_def read_cliente_def read_clientes_def
      session_exec_offset_limit_def int64_def)

text \<open>
  In every reachable table the keys increase along the list: the order of the list is
  the order of the primary key, the order in which a scan yields the rows, and it is the
  order of insertion.
\<close>

lemma keys_increasing_create:
  "sorted_wrt (<) (map id_pk s) \<Longrightarrow> sorted_wrt (<) (map id_pk (snd (create_cliente s c)))"
proof (cases "email c \<in> email ` set s")
  case True
  assume "sorted_wrt (<) (map id_pk s)"
  then show ?thesis using True by (simp add: create_cliente_dup)
next
  case False
  assume "sorted_wrt (<) (map id_pk s)"
  then show ?thesis
    using False id_lt_next_rowid[of _ s]
    by (simp add: create_cliente_fresh sorted_wrt_append)
qed

lemma keys_increasing_update:
  "sorted_wrt (<) (map id_pk s) \<Longrightarrow> sorted_wrt (<) (map id_pk (snd (update_cliente s k c)))"
proof (cases "\<exists>r. session_get s k = Inr (Some r)")
  case False
  assume "sorted_wrt (<) (map id_pk s)"
  then show ?thesis using False by (simp add: update_cliente_not_loaded)
next
  case True
  then obtain r where Some: "session_get s k = Inr (Some r)" ..
  assume inc: "sorted_wrt (<) (map id_pk s)"
  define row where "row = sqlmodel_update r (model_dump_exclude_unset c)"
  have rk: "id_pk row = k" using Some by (simp add: row_def session_get_Some)
  have "snd (update_cliente s k c) = s \<or>
        snd (update_cliente s k c) = map (\<lambda>x. if id_pk x = k then row else x) s"
    using Some by (simp add: update_cliente_def update_commit_def Let_def row_def)
  moreover have "map id_pk (map (\<lambda>x. if id_pk x = k then row else x) s) = map id_pk s"
    using update_rows_ids[OF rk, of s] by (simp add: o_def del: map_eq_conv)
  ultimately show ?thesis using inc by (elim disjE) (simp_all only:)
qed

lemma keys_increasing_delete:
  "sorted_wrt (<) (map id_pk s) \<Longrightarrow> sorted_wrt (<) (map id_pk (snd (delete_cliente s k)))"
  by (auto simp: delete_cliente_def delete_commit_def sorted_wrt_map sorted_wrt_filter
      split: option.split sum.split)

lemma keys_increasing_step:
  "sorted_wrt (<) (map id_pk s) \<Longrightarrow> sorted_wrt (<) (map id_pk (step s r))"
  by (cases r)
    (simp_all add: keys_increasing_create keys_increasing_update keys_increasing_delete
      read_cliente_def read_clientes_def split: option.split sum.split)

lemma keys_increasing_run: "sorted_wrt (<) (map id_pk (run [] rs))"
proof -
  have "sorted_wrt (<) (map id_pk s) \<Longrightarrow> sorted_wrt (<) (map id_pk (foldl step s rs))" for s
    by (induction rs arbitrary: s) (simp_all add: keys_increasing_step)
  then show ?thesis by (simp add: run_def)
qed

text \<open>
  The keys of a reachable table are at least 1 and at most the number of requests
  made, so they lie in the signed 64-bit range of the storage engine for every run shorter
  than $2^{63}$ requests: a key that a row has is one the engine holds.
\<close>

lemma next_rowid_bounds:
  "0 \<le> n \<Longrightarrow> id_pk ` set s \<subseteq> {1..n} \<Longrightarrow> 1 \<le> next_rowid s \<and> next_rowid s \<le> n + 1"
proof (cases "s = []")
  case True
  assume "0 \<le> n"
  then show ?thesis using True by (simp add: next_rowid_def)
next
  case False
  assume sub: "id_pk ` set s \<subseteq> {1..n}"
  have "Max (id_pk ` set s) \<in> id_pk ` set s"
    using False by (intro Max_in) auto
  then have "1 \<le> Max (id_pk ` set s) \<and> Max (id_pk ` set s) \<le> n"
    using sub by auto
  then show ?thesis using False by (simp add: next_rowid_def)
qed

lemma keys_step_subset: "id_pk ` set (step s q) \<subseteq> insert (next_rowid s) (id_pk ` set s)"
proof (cases q)
  case (Create c)
  show ?thesis
  proof (cases "email c \<in> email ` set s")
    case True
    then show ?thesis using Create by (auto simp: create_cliente_dup)
  next
    case False
    then show ?thesis using Create by (auto simp: create_cliente_fresh)
  qed
next
  case (List offset limit)
  then show ?thesis by (auto simp: read_clientes_def split: sum.split)
next
  case (Get k)
  then show ?thesis by (auto simp: read_cliente_def split: sum.split option.split)
next
  case (Update k c)
  show ?thesis
  proof (cases "\<exists>r. session_get s k = Inr (Some r)")
    case False
    then show ?thesis using Update by (auto simp: update_cliente_not_loaded)
  next
    case True
    then obtain r where got: "session_get s k = Inr (Some r)" ..
    define row where "row = sqlmodel_update r (model_dump_exclude_unset c)"
    have rk: "id_pk row = k" using got by (simp add: row_def session_get_Some)
    have "snd (update_cliente s k c) = s \<or>
          snd (update_cliente s k c) = map (\<lambda>x. if id_pk x = k then row else x) s"
      using got by (simp add: update_cliente_def update_commit_def Let_def row_def)
    moreover have "map id_pk (map (\<lambda>x. if id_pk x = k then row else x) s) = map id_pk s"
      using update_rows_ids[OF rk, of s] by (simp add: o_def del: map_eq_conv)
    then have "id_pk ` set (map (\<lambda>x. if id_pk x = k then row else x) s) = id_pk ` set s"
      by (metis list.set_map)
    ultimately show ?thesis using Update by auto
  qed
next
  case (Delete k)
  then show ?thesis
    by (auto simp: delete_cliente_def delete_commit_def split: sum.split option.split)
qed

lemma keys_run_bounded:
  "0 \<le> n \<Longrightarrow> id_pk ` set s \<subseteq> {1..n} \<Longrightarrow>
   id_pk ` set (foldl step s rs) \<subseteq> {1..n + int (length rs)}"
proof (induction rs arbitrary: s n)
  case Nil
  then show ?case by simp
next
  case (Cons q rs)
  have "id_pk ` set (step s q) \<subseteq> {1..n + 1}"
    using keys_step_subset[of s q] next_rowid_bounds[OF Cons.prems] Cons.prems(2) by fastforce
  then have "id_pk ` set (foldl step (step s q) rs) \<subseteq> {1..n + 1 + int (length rs)}"
    using Cons.prems(1) by (intro Cons.IH) auto
  then show ?case by (simp add: algebra_simps)
qed

lemma keys_of_run_in_range:
  "int (length rs) < 2 ^ 63 \<Longrightarrow> r \<in> set (run [] rs) \<Longrightarrow> int64 (id_pk r)"
proof -
  assume len: "int (length rs) < 2 ^ 63" and r: "r \<in> set (run [] rs)"
  have "id_pk ` set (foldl step [] rs) \<subseteq> {1..0 + int (length rs)}"
    by (rule keys_run_bounded) auto
  then have "1 \<le> id_pk r \<and> id_pk r \<le> int (length rs)"
    using r by (auto simp: run_def)
  then show ?thesis using len by (simp add: int64_def)
qed

subsection \<open>List\<close>

text \<open>
  The claim that every limit outside 1..100 is rejected, and that no offset from 0 with
  a limit in 1..100 fails, does not hold: the limit parameter carries an upper bound only,
  so a limit of zero is accepted, and the offset $2^{63}$ cannot be bound to the query, so
  the request is answered with status 500.
\<close>

theorem C3_counterexample:
  "\<not> (1 \<le> (0::int) \<and> (0::int) \<le> 100) \<and>
   read_clientes [row_ana, row_bia] 0 0 = (Inr [], [row_ana, row_bia]) \<and>
   (0::int) \<le> 2 ^ 63 \<and> (1::int) \<le> 100 \<and> (100::int) \<le> 100 \<and>
   read_clientes [row_ana, row_bia] (2 ^ 63) 100 = (Inl OverflowError, [row_ana, row_bia]) \<and>
   status_code OverflowError = 500"
  by (simp add: read_clientes_def session_exec_offset_limit_def int64_def sql_limit_def
      sql_offset_def)

text \<open>
  C3, as the code has it. The limit parameter is an integer with the upper bound 100
  (default 10, default offset 0): every limit greater than 100 is rejected at the
  boundary (status 422) whatever the offset and the table, and in particular a limit of
  101 is rejected; for every offset from 0 below $2^{63}$ and every limit in 1..100 List
  does not fail; an offset from $2^{63}$ on with such a limit is answered with
  \<^verbatim>\<open>OverflowError\<close> (status 500). The table is unchanged in each case.
\<close>

theorem C3_limit_above_100_rejected:
  "(100 < limit \<longrightarrow> read_clientes s offset limit = (Inl RequestValidationError, s)) \<and>
   read_clientes s offset 101 = (Inl RequestValidationError, s) \<and>
   status_code RequestValidationError = 422 \<and>
   (0 \<le> offset \<and> offset < 2 ^ 63 \<and> 1 \<le> limit \<and> limit \<le> 100 \<longrightarrow>
      (\<exists>rows. read_clientes s offset limit = (Inr rows, s))) \<and>
   (2 ^ 63 \<le> offset \<and> 1 \<le> limit \<and> limit \<le> 100 \<longrightarrow>
      read_clientes s offset limit = (Inl OverflowError, s)) \<and>
   get_clientes s None None = read_clientes s 0 10"
  by (simp add: read_clientes_def get_clientes_def session_exec_offset_limit_def int64_def)

theorem C3_witness:
  "(100::int) < 101 \<and>
   read_clientes [row_ana, row_bia] 0 101 = (Inl RequestValidationError, [row_ana, row_bia]) \<and>
   (0::int) \<le> 0 \<and> (0::int) < 2 ^ 63 \<and> (1::int) \<le> 100 \<and> (100::int) \<le> 100 \<and>
   (\<exists>rows. read_clientes [row_ana, row_bia] 0 100 = (Inr rows, [row_ana, row_bia])) \<and>
   (2::int) ^ 63 \<le> 2 ^ 63 \<and>
   read_clientes [row_ana, row_bia] (2 ^ 63) 100 = (Inl OverflowError, [row_ana, row_bia])"
  using C3_limit_above_100_rejected [of 101 "[row_ana, row_bia]" 0]
    C3_limit_above_100_rejected [of 100 "[row_ana, row_bia]" 0]
    C3_limit_above_100_rejected [of 100 "[row_ana, row_bia]" "2 ^ 63"]
  by simp

lemma next_rowid_append:
  "next_rowid (s @ [with_id f (next_rowid s)]) = next_rowid s + 1"
proof (cases "s = []")
  case True
  then show ?thesis by (simp add: next_rowid_def)
next
  case False
  define M where "M = Max (set (map id_pk s))"
  have fin: "finite (id_pk ` set s)" by simp
  have ne: "id_pk ` set s \<noteq> {}" using False by simp
  have "Max (insert (M + 1) (id_pk ` set s)) = max (M + 1) (Max (id_pk ` set s))"
    using fin ne by (rule Max_insert)
  then have "Max (insert (M + 1) (id_pk ` set s)) = M + 1"
    by (simp add: M_def)
  then show ?thesis using False by (simp add: next_rowid_def M_def)
qed

lemma create_all_rows:
  "distinct (map email cs) \<Longrightarrow> email ` set cs \<inter> email ` set s = {} \<Longrightarrow>
   create_all s cs = s @ rows_from (next_rowid s) cs"
proof (induction cs arbitrary: s)
  case Nil
  then show ?case by simp
next
  case (Cons c cs)
  define r where "r = with_id (Cliente_model_validate c) (next_rowid s)"
  have fresh: "email c \<notin> email ` set s" using Cons.prems(2) by auto
  then have step1: "snd (create_cliente s c) = s @ [r]"
    by (simp add: create_cliente_fresh r_def)
  have d: "distinct (map email cs)" using Cons.prems(1) by simp
  have "email ` set cs \<inter> email ` set (s @ [r]) = {}"
    using Cons.prems by (auto simp: r_def)
  then have "create_all (s @ [r]) cs = (s @ [r]) @ rows_from (next_rowid (s @ [r])) cs"
    using d by (rule Cons.IH[rotated])
  moreover have "next_rowid (s @ [r]) = next_rowid s + 1"
    unfolding r_def by (rule next_rowid_append)
  ultimately show ?case using step1 by (simp add: r_def)
qed

lemma length_rows_from [simp]: "length (rows_from k cs) = length cs"
  by (induction cs arbitrary: k) auto

text \<open>
  The claim gives a page for every offset from 0; the offset $2^{63}$ with the limit 10
  is answered with status 500 instead.
\<close>

theorem C9_counterexample:
  "(0::int) \<le> 2 ^ 63 \<and> (1::int) \<le> 10 \<and> (10::int) \<le> 100 \<and>
   read_clientes [row_ana, row_bia] (2 ^ 63) 10 = (Inl OverflowError, [row_ana, row_bia]) \<and>
   fst (read_clientes [row_ana, row_bia] (2 ^ 63) 10) \<noteq>
     Inr (take (nat 10) (drop (nat (2 ^ 63)) [row_ana, row_bia]))"
  by (simp add: read_clientes_def session_exec_offset_limit_def int64_def)

text \<open>
  C9, as the code has it. Pagination: for every table, every offset from 0 below
  $2^{63}$ (the signed 64-bit range of the storage engine) and every limit in 1..100,
  List returns the rows that remain after skipping the first offset rows, cut to at most
  limit rows, in the order of the table, which is the order of insertion. In particular,
  after fifteen customers with different e-mails are created on the empty table, List
  with offset 0 and limit 10 returns exactly ten rows: the first ten customers in the
  order they were created, with the keys 1 to 10.
\<close>

theorem C9_list_pagination_in_range:
  "(0 \<le> offset \<and> offset < 2 ^ 63 \<and> 1 \<le> limit \<and> limit \<le> 100 \<longrightarrow>
      read_clientes s offset limit = (Inr (take (nat limit) (drop (nat offset) s)), s)) \<and>
   (distinct (map email cs) \<and> length cs = 15 \<longrightarrow>
      fst (read_clientes (create_all [] cs) 0 10) = Inr (take 10 (rows_from 1 cs)) \<and>
      length (take 10 (rows_from 1 cs)) = 10)"
proof -
  have a: "read_clientes s offset limit = (Inr (take (nat limit) (drop (nat offset) s)), s)"
    if "0 \<le> offset" "offset < 2 ^ 63" "1 \<le> limit" "limit \<le> 100"
    using that
    by (simp add: read_clientes_def session_exec_offset_limit_def int64_def sql_limit_def
        sql_offset_def)
  have b: "fst (read_clientes (create_all [] cs) 0 10) = Inr (take 10 (rows_from 1 cs))"
    if "distinct (map email cs)"
  proof -
    have "create_all [] cs = [] @ rows_from (next_rowid []) cs"
      using that by (intro create_all_rows) auto
    then have "create_all [] cs = rows_from 1 cs" by (simp add: next_rowid_def)
    then show ?thesis
      by (simp add: read_clientes_def session_exec_offset_limit_def int64_def sql_limit_def
          sql_offset_def)
  qed
  show ?thesis using a b by simp
qed

theorem C9_witness:
  "(0::int) \<le> 1 \<and> (1::int) < 2 ^ 63 \<and> (1::int) \<le> 1 \<and> (1::int) \<le> 100 \<and>
   read_clientes [row_ana, row_bia] 1 1 = (Inr [row_bia], [row_ana, row_bia]) \<and>
   distinct (map email quinze) \<and> length quinze = 15 \<and>
   map email (take 10 (rows_from 1 quinze)) =
     [''a'', ''b'', ''c'', ''d'', ''e'', ''f'', ''g'', ''h'', ''i'', ''j''] \<and>
   map id_pk (take 10 (rows_from 1 quinze)) = [1, 2, 3, 4, 5, 6, 7, 8, 9, 10] \<and>
   fst (read_clientes (create_all [] quinze) 0 10) = Inr (take 10 (rows_from 1 quinze))"
  using C9_list_pagination_in_range [of 1 1 "[row_ana, row_bia]" quinze]
  by (simp add: quinze_def novo_def)

subsection \<open>Update\<close>

text \<open>
  What the handler body does with a validated \<^verbatim>\<open>ClienteBase\<close>: the key stays, a
  field in \<^verbatim>\<open>model_fields_set\<close> takes the value of the request, every other field keeps
  the value of the row, and only the row of that key is rewritten.
\<close>

lemma update_cliente_merge:
  assumes "session_get s k = Inr (Some r)"
    and "update_cliente s k c = (Inr r', s')"
  shows "id_pk r' = id_pk r"
    and "nome r' = (if Nome \<in> model_fields_set c then nome c else nome r)"
    and "email r' = (if Email \<in> model_fields_set c then email c else email r)"
    and "telefone r' = (if Telefone \<in> model_fields_set c then telefone c else telefone r)"
    and "empresa r' = (if Empresa \<in> model_fields_set c then empresa c else empresa r)"
    and "s' = map (\<lambda>x. if id_pk x = k then r' else x) s"
  using assms
  by (auto simp: update_cliente_def update_commit_def Let_def sqlmodel_update_def
      model_dump_exclude_unset_def split: if_splits)

text \<open>
  A body that repeats the two required fields and adds the telephone passes validation,
  and the merge changes the telephone only.
\<close>

lemma full_body_patch:
  "patch_clientes [row_ana, row_bia] 2
     [Nome \<mapsto> Some ''Bia'', Email \<mapsto> Some ''bia@crm.br'', Telefone \<mapsto> Some ''5599''] =
   (Inr (row_bia\<lparr>telefone := Some ''5599''\<rparr>), [row_ana, row_bia\<lparr>telefone := Some ''5599''\<rparr>])"
  by (simp add: patch_clientes_def ClienteBase_model_validate_def session_get_def
      row_ana_def row_bia_def update_cliente_def update_commit_def Let_def sqlmodel_update_def
      model_dump_exclude_unset_def)

text \<open>
  C1. Update is meant as a merge in which a request may carry the telephone alone (the
  comment at lines 179--180 says so). The parameter \<^verbatim>\<open>cliente_update\<close> is typed
  \<^verbatim>\<open>ClienteBase\<close>, whose \<open>nome\<close> and \<open>email\<close> are required, so the body
  \<^verbatim>\<open>{"telefone": "5599"}\<close> for the existing customer 2 is refused with status 422
  before the handler body runs: the telephone of the customer stays \<^verbatim>\<open>5511\<close> and the
  table is unchanged.
\<close>

theorem C1_phone_only_patch_is_rejected:
  "session_get [row_ana, row_bia] 2 = Inr (Some row_bia) \<and>
   ClienteBase_model_validate [Telefone \<mapsto> Some ''5599''] = Inl RequestValidationError \<and>
   patch_clientes [row_ana, row_bia] 2 [Telefone \<mapsto> Some ''5599''] =
     (Inl RequestValidationError, [row_ana, row_bia]) \<and>
   telefone row_bia = Some ''5511'' \<and>
   status_code RequestValidationError = 422"
  by (simp add: patch_clientes_def ClienteBase_model_validate_def session_get_def
      row_ana_def row_bia_def)

end
